theory Spec2Isabelle
  imports Main "HOL-Library.AList"
begin

section \<open>The profile script \<^verbatim>\<open>profile.py\<close>\<close>

text \<open>
  The repository is one Python script. It builds a request for one testbed node through
  the geni-lib API and prints it. The script is embedded statement by statement as a
  function on an explicit Python world (object heap, standard output, and the log of the
  library calls that completed). Exceptions are values: a run returns \<open>Inl\<close> the fault or
  \<open>Inr\<close> the module's variables with the final world. The three imports at the top of
  the script are taken to succeed: a run starts at \<^verbatim>\<open>pc = portal.Context()\<close>.
\<close>

subsection \<open>Python values and objects\<close>

type_synonym addr = nat

datatype pyval = PyStr string | PyBool bool

text \<open>An object's \<^verbatim>\<open>__dict__\<close>, in insertion order.\<close>

type_synonym pydict = "(string \<times> pyval) list"

text \<open>The one description type the script names: \<^verbatim>\<open>IG.Tour.TEXT\<close>.\<close>

datatype tour_type = TEXT

text \<open>
  Modelled from the spec: the classes of geni-lib (\<^verbatim>\<open>geni.portal\<close>, \<^verbatim>\<open>geni.rspec.pg\<close>,
  \<^verbatim>\<open>geni.rspec.igext\<close>) are imported by the script and are not part of the repository.
  Following the spec's data model, a Request holds a tour and an ordered collection of
  nodes, a Tour holds a description, a Node has a symbolic name and an ordered collection
  of blockstores, a Blockstore has a symbolic name and a mount path. Every attribute the
  script assigns (\<^verbatim>\<open>obj.attr = value\<close>) goes to the object's dictionary.
\<close>

datatype body =
    ContextObj
  | RequestObj "addr option" "addr list"
  | TourObj "(tour_type \<times> string) option"
  | RawPCObj string "addr list"
  | BlockstoreObj string string

record pyobj =
  body :: body
  attrs :: pydict

type_synonym heap = "pyobj list"

definition lookup :: "heap \<Rightarrow> addr \<Rightarrow> pyobj option" where
  "lookup h a = (if a < length h then Some (h ! a) else None)"

definition new_obj :: "body \<Rightarrow> pyobj" where
  "new_obj b = \<lparr>body = b, attrs = []\<rparr>"

subsection \<open>The library calls of the script, and the world\<close>

text \<open>What a serializer can read of a request: the objects reachable from it.\<close>

datatype bs_doc = BlockstoreDoc string string pydict
datatype node_doc = NodeDoc string pydict "bs_doc list"
datatype rspec_doc = RSpecDoc "(tour_type \<times> string) option" "node_doc list"

text \<open>
  One constructor per call form of the script, with the values passed: strings and
  booleans as they are, the request handed to the serializer as the objects reachable from
  it, receivers left out. This is what the library sees of a call, and what it can reject.
\<close>

datatype call =
    Call_Context
  | Call_makeRequestRSpec
  | Call_Tour
  | Call_Description tour_type string
  | Call_addTour
  | Call_RawPC string
  | Call_setattr string pyval
  | Call_Blockstore string string
  | Call_printRequestRSpec rspec_doc

datatype error =
    LibraryFault call
  | AttributeError addr

text \<open>
  Modelled from the spec: geni-lib itself. Its code is not in the repository, so the two
  things the script cannot decide are parameters: which calls the library rejects (it
  then raises), and the text its serializer renders for a request.
\<close>

record lib =
  rejects :: "call \<Rightarrow> bool"
  render :: "rspec_doc \<Rightarrow> string"

record world =
  heap :: heap
  stdout :: "string list"
  trace :: "call list"

type_synonym 'a result = "error + ('a \<times> world)"

definition bindE :: "'a result \<Rightarrow> ('a \<Rightarrow> world \<Rightarrow> 'b result) \<Rightarrow> 'b result" where
  "bindE m f = (case m of Inl e \<Rightarrow> Inl e | Inr (x, w) \<Rightarrow> f x w)"

text \<open>Entering the library: a rejected call raises, a completed call is logged.\<close>

definition enter :: "lib \<Rightarrow> call \<Rightarrow> world \<Rightarrow> unit result" where
  "enter L c w =
     (if rejects L c then Inl (LibraryFault c)
      else Inr ((), w\<lparr>trace := trace w @ [c]\<rparr>))"

definition alloc :: "body \<Rightarrow> world \<Rightarrow> addr result" where
  "alloc b w = Inr (length (heap w), w\<lparr>heap := heap w @ [new_obj b]\<rparr>)"

subsection \<open>The library's operations\<close>

text \<open>
  Modelled from the spec: the methods of geni-lib that the script calls, whose code is not
  in the repository. Each one is what the spec's operation list says of it: a constructor
  allocates a fresh object, \<^verbatim>\<open>RawPC\<close> and \<^verbatim>\<open>Blockstore\<close> also attach the new
  object to their receiver, \<^verbatim>\<open>printRequestRSpec\<close> writes the rendered request to
  standard output. A method called on an object of another class raises, as an attribute
  that is missing does in Python; the receiver is looked up before the library is entered.
\<close>

text \<open>\<^verbatim>\<open>portal.Context()\<close>\<close>

definition portal_Context :: "lib \<Rightarrow> world \<Rightarrow> addr result" where
  "portal_Context L w = bindE (enter L Call_Context w) (\<lambda>_. alloc ContextObj)"

text \<open>\<^verbatim>\<open>pc.makeRequestRSpec()\<close>: an empty request.\<close>

definition makeRequestRSpec :: "lib \<Rightarrow> addr \<Rightarrow> world \<Rightarrow> addr result" where
  "makeRequestRSpec L pc w =
     (case map_option body (lookup (heap w) pc) of
        Some ContextObj \<Rightarrow>
          bindE (enter L Call_makeRequestRSpec w) (\<lambda>_. alloc (RequestObj None []))
      | _ \<Rightarrow> Inl (AttributeError pc))"

text \<open>\<^verbatim>\<open>IG.Tour()\<close>\<close>

definition IG_Tour :: "lib \<Rightarrow> world \<Rightarrow> addr result" where
  "IG_Tour L w = bindE (enter L Call_Tour w) (\<lambda>_. alloc (TourObj None))"

text \<open>\<^verbatim>\<open>tour.Description(type, desc)\<close>\<close>

definition Description :: "lib \<Rightarrow> addr \<Rightarrow> tour_type \<Rightarrow> string \<Rightarrow> world \<Rightarrow> unit result" where
  "Description L t ty desc w =
     (case lookup (heap w) t of
        Some ob \<Rightarrow>
          (case body ob of
             TourObj _ \<Rightarrow>
               bindE (enter L (Call_Description ty desc) w) (\<lambda>_ w'.
                 Inr ((), w'\<lparr>heap := (heap w')[t := ob\<lparr>body := TourObj (Some (ty, desc))\<rparr>]\<rparr>))
           | _ \<Rightarrow> Inl (AttributeError t))
      | None \<Rightarrow> Inl (AttributeError t))"

text \<open>\<^verbatim>\<open>request.addTour(tour)\<close>\<close>

definition addTour :: "lib \<Rightarrow> addr \<Rightarrow> addr \<Rightarrow> world \<Rightarrow> unit result" where
  "addTour L r t w =
     (case lookup (heap w) r of
        Some ob \<Rightarrow>
          (case body ob of
             RequestObj _ ns \<Rightarrow>
               bindE (enter L Call_addTour w) (\<lambda>_ w'.
                 Inr ((), w'\<lparr>heap := (heap w')[r := ob\<lparr>body := RequestObj (Some t) ns\<rparr>]\<rparr>))
           | _ \<Rightarrow> Inl (AttributeError r))
      | None \<Rightarrow> Inl (AttributeError r))"

text \<open>\<^verbatim>\<open>request.RawPC(name)\<close>: a new node, added to the request.\<close>

definition RawPC :: "lib \<Rightarrow> addr \<Rightarrow> string \<Rightarrow> world \<Rightarrow> addr result" where
  "RawPC L r name w =
     (case lookup (heap w) r of
        Some ob \<Rightarrow>
          (case body ob of
             RequestObj t ns \<Rightarrow>
               bindE (enter L (Call_RawPC name) w) (\<lambda>_ w'.
                 let n = length (heap w') in
                 Inr (n, w'\<lparr>heap := (heap w')[r := ob\<lparr>body := RequestObj t (ns @ [n])\<rparr>]
                                      @ [new_obj (RawPCObj name [])]\<rparr>))
           | _ \<Rightarrow> Inl (AttributeError r))
      | None \<Rightarrow> Inl (AttributeError r))"

text \<open>\<^verbatim>\<open>node.Blockstore(name, mount)\<close>: a new blockstore, attached to the node.\<close>

definition Blockstore :: "lib \<Rightarrow> addr \<Rightarrow> string \<Rightarrow> string \<Rightarrow> world \<Rightarrow> addr result" where
  "Blockstore L n name mount w =
     (case lookup (heap w) n of
        Some ob \<Rightarrow>
          (case body ob of
             RawPCObj nm bl \<Rightarrow>
               bindE (enter L (Call_Blockstore name mount) w) (\<lambda>_ w'.
                 let b = length (heap w') in
                 Inr (b, w'\<lparr>heap := (heap w')[n := ob\<lparr>body := RawPCObj nm (bl @ [b])\<rparr>]
                                      @ [new_obj (BlockstoreObj name mount)]\<rparr>))
           | _ \<Rightarrow> Inl (AttributeError n))
      | None \<Rightarrow> Inl (AttributeError n))"

text \<open>\<^verbatim>\<open>obj.attr = value\<close>\<close>

definition setattr :: "lib \<Rightarrow> addr \<Rightarrow> string \<Rightarrow> pyval \<Rightarrow> world \<Rightarrow> unit result" where
  "setattr L a name v w =
     (case lookup (heap w) a of
        Some ob \<Rightarrow>
          bindE (enter L (Call_setattr name v) w) (\<lambda>_ w'.
            Inr ((), w'\<lparr>heap := (heap w')[a := ob\<lparr>attrs := AList.update name v (attrs ob)\<rparr>]\<rparr>))
      | None \<Rightarrow> Inl (AttributeError a))"

text \<open>The objects reachable from a blockstore, a node, a request.\<close>

definition snapshot_bs :: "heap \<Rightarrow> addr \<Rightarrow> bs_doc option" where
  "snapshot_bs h a =
     (case lookup h a of
        Some ob \<Rightarrow>
          (case body ob of
             BlockstoreObj name mount \<Rightarrow> Some (BlockstoreDoc name mount (attrs ob))
           | _ \<Rightarrow> None)
      | None \<Rightarrow> None)"

definition snapshot_node :: "heap \<Rightarrow> addr \<Rightarrow> node_doc option" where
  "snapshot_node h a =
     (case lookup h a of
        Some ob \<Rightarrow>
          (case body ob of
             RawPCObj name bl \<Rightarrow>
               map_option (NodeDoc name (attrs ob)) (those (map (snapshot_bs h) bl))
           | _ \<Rightarrow> None)
      | None \<Rightarrow> None)"

definition snapshot_tour :: "heap \<Rightarrow> addr option \<Rightarrow> (tour_type \<times> string) option option" where
  "snapshot_tour h t =
     (case t of
        None \<Rightarrow> Some None
      | Some a \<Rightarrow>
          (case map_option body (lookup h a) of
             Some (TourObj d) \<Rightarrow> Some d
           | _ \<Rightarrow> None))"

definition snapshot :: "heap \<Rightarrow> addr \<Rightarrow> rspec_doc option" where
  "snapshot h a =
     (case map_option body (lookup h a) of
        Some (RequestObj t ns) \<Rightarrow>
          (case (snapshot_tour h t, those (map (snapshot_node h) ns)) of
             (Some d, Some nds) \<Rightarrow> Some (RSpecDoc d nds)
           | _ \<Rightarrow> None)
      | _ \<Rightarrow> None)"

text \<open>\<^verbatim>\<open>pc.printRequestRSpec(request)\<close>: one document on standard output.\<close>

definition printRequestRSpec :: "lib \<Rightarrow> addr \<Rightarrow> addr \<Rightarrow> world \<Rightarrow> unit result" where
  "printRequestRSpec L pc r w =
     (case map_option body (lookup (heap w) pc) of
        Some ContextObj \<Rightarrow>
          (case snapshot (heap w) r of
             Some d \<Rightarrow>
               bindE (enter L (Call_printRequestRSpec d) w) (\<lambda>_ w'.
                 Inr ((), w'\<lparr>stdout := stdout w' @ [render L d]\<rparr>))
           | None \<Rightarrow> Inl (AttributeError r))
      | _ \<Rightarrow> Inl (AttributeError pc))"

subsection \<open>The script\<close>

text \<open>
  \<^verbatim>\<open>tourDescription = \
  """
  Example profile for the hello-world-cluster
  """\<close>
  The literal opens on a line of its own, so the text starts and ends with a line feed.
\<close>

definition tourDescription :: string where
  "tourDescription = ''\<newline>Example profile for the hello-world-cluster\<newline>''"

text \<open>The variables the module binds.\<close>

record vars =
  var_pc :: addr
  var_request :: addr
  var_tour :: addr
  var_node :: addr
  var_bs :: addr

definition profile :: "lib \<Rightarrow> world \<Rightarrow> vars result" where
  "profile L w0 =
     bindE (portal_Context L w0) (\<lambda>pc w.
     bindE (makeRequestRSpec L pc w) (\<lambda>request w.
     bindE (IG_Tour L w) (\<lambda>tour w.
     bindE (Description L tour TEXT tourDescription w) (\<lambda>_ w.
     bindE (addTour L request tour w) (\<lambda>_ w.
     bindE (RawPC L request ''deploy-node'' w) (\<lambda>node w.
     bindE (setattr L node ''hardware_type'' (PyStr ''d430'') w) (\<lambda>_ w.
     bindE (setattr L node ''disk_image''
              (PyStr ''urn:publicid:IDN+emulab.net+image+emulab-ops:UBUNTU22-64-STD'') w) (\<lambda>_ w.
     bindE (setattr L node ''routable_control_ip'' (PyBool True) w) (\<lambda>_ w.
     bindE (Blockstore L node ''bs'' ''/mydata'' w) (\<lambda>bs w.
     bindE (setattr L bs ''size'' (PyStr ''20GB'') w) (\<lambda>_ w.
     bindE (printRequestRSpec L pc request w) (\<lambda>_ w.
     Inr (\<lparr>var_pc = pc, var_request = request, var_tour = tour,
           var_node = node, var_bs = bs\<rparr>, w)))))))))))))"

subsection \<open>Reading the heap\<close>

text \<open>\<^verbatim>\<open>getattr(obj, name)\<close> on the object's dictionary.\<close>

definition getattr :: "heap \<Rightarrow> addr \<Rightarrow> string \<Rightarrow> pyval option" where
  "getattr h a name = (case lookup h a of Some ob \<Rightarrow> map_of (attrs ob) name | None \<Rightarrow> None)"

definition nodes_of :: "heap \<Rightarrow> addr \<Rightarrow> addr list option" where
  "nodes_of h r =
     (case map_option body (lookup h r) of Some (RequestObj t ns) \<Rightarrow> Some ns | _ \<Rightarrow> None)"

definition tour_of :: "heap \<Rightarrow> addr \<Rightarrow> addr option" where
  "tour_of h r =
     (case map_option body (lookup h r) of Some (RequestObj t ns) \<Rightarrow> t | _ \<Rightarrow> None)"

definition description_of :: "heap \<Rightarrow> addr \<Rightarrow> (tour_type \<times> string) option" where
  "description_of h t =
     (case map_option body (lookup h t) of Some (TourObj d) \<Rightarrow> d | _ \<Rightarrow> None)"

definition node_name :: "heap \<Rightarrow> addr \<Rightarrow> string option" where
  "node_name h n =
     (case map_option body (lookup h n) of Some (RawPCObj name bl) \<Rightarrow> Some name | _ \<Rightarrow> None)"

definition blockstores_of :: "heap \<Rightarrow> addr \<Rightarrow> addr list option" where
  "blockstores_of h n =
     (case map_option body (lookup h n) of Some (RawPCObj name bl) \<Rightarrow> Some bl | _ \<Rightarrow> None)"

definition bs_name :: "heap \<Rightarrow> addr \<Rightarrow> string option" where
  "bs_name h b =
     (case map_option body (lookup h b) of Some (BlockstoreObj name m) \<Rightarrow> Some name | _ \<Rightarrow> None)"

definition bs_mount :: "heap \<Rightarrow> addr \<Rightarrow> string option" where
  "bs_mount h b =
     (case map_option body (lookup h b) of Some (BlockstoreObj name m) \<Rightarrow> Some m | _ \<Rightarrow> None)"

text \<open>The addresses an object holds, and heaps without dangling addresses.\<close>

fun refs :: "body \<Rightarrow> addr list" where
  "refs (RequestObj t ns) = (case t of None \<Rightarrow> [] | Some a \<Rightarrow> [a]) @ ns"
| "refs (RawPCObj name bl) = bl"
| "refs _ = []"

definition closed :: "heap \<Rightarrow> bool" where
  "closed h = list_all (\<lambda>ob. list_all (\<lambda>a. a < length h) (refs (body ob))) h"

text \<open>The objects of a heap that hold a given address.\<close>

definition holders :: "heap \<Rightarrow> addr \<Rightarrow> addr list" where
  "holders h b = filter (\<lambda>a. b \<in> set (refs (body (h ! a)))) [0..<length h]"

fun is_RawPC :: "call \<Rightarrow> bool" where
  "is_RawPC (Call_RawPC name) = True"
| "is_RawPC _ = False"

subsection \<open>Runs\<close>

text \<open>The process exit status of a run: 1 after an unhandled exception, else 0.\<close>

definition exit_status :: "'a result \<Rightarrow> nat" where
  "exit_status r = (case r of Inl e \<Rightarrow> 1 | Inr x \<Rightarrow> 0)"

text \<open>What a run writes to standard output, or the fault that ended it.\<close>

definition run_output :: "lib \<Rightarrow> world \<Rightarrow> error + string list" where
  "run_output L w =
     (case profile L w of
        Inl e \<Rightarrow> Inl e
      | Inr (g, w') \<Rightarrow> Inr (drop (length (stdout w)) (stdout w')))"

text \<open>The outcome of a run in which the library rejects nothing, from a heap of size \<open>n\<close>.\<close>

definition profile_vars :: "addr \<Rightarrow> vars" where
  "profile_vars n =
     \<lparr>var_pc = n, var_request = n + 1, var_tour = n + 2, var_node = n + 3, var_bs = n + 4\<rparr>"

definition node_attrs :: pydict where
  "node_attrs =
     [(''hardware_type'', PyStr ''d430''),
      (''disk_image'', PyStr ''urn:publicid:IDN+emulab.net+image+emulab-ops:UBUNTU22-64-STD''),
      (''routable_control_ip'', PyBool True)]"

definition profile_objects :: "addr \<Rightarrow> pyobj list" where
  "profile_objects n =
     [\<lparr>body = ContextObj, attrs = []\<rparr>,
      \<lparr>body = RequestObj (Some (n + 2)) [n + 3], attrs = []\<rparr>,
      \<lparr>body = TourObj (Some (TEXT, tourDescription)), attrs = []\<rparr>,
      \<lparr>body = RawPCObj ''deploy-node'' [n + 4], attrs = node_attrs\<rparr>,
      \<lparr>body = BlockstoreObj ''bs'' ''/mydata'', attrs = [(''size'', PyStr ''20GB'')]\<rparr>]"

definition profile_doc :: rspec_doc where
  "profile_doc =
     RSpecDoc (Some (TEXT, tourDescription))
       [NodeDoc ''deploy-node'' node_attrs
          [BlockstoreDoc ''bs'' ''/mydata'' [(''size'', PyStr ''20GB'')]]]"

text \<open>The library calls of the script, in the order of the source.\<close>

definition profile_calls :: "call list" where
  "profile_calls =
     [Call_Context, Call_makeRequestRSpec, Call_Tour,
      Call_Description TEXT tourDescription, Call_addTour,
      Call_RawPC ''deploy-node'',
      Call_setattr ''hardware_type'' (PyStr ''d430''),
      Call_setattr ''disk_image''
        (PyStr ''urn:publicid:IDN+emulab.net+image+emulab-ops:UBUNTU22-64-STD''),
      Call_setattr ''routable_control_ip'' (PyBool True),
      Call_Blockstore ''bs'' ''/mydata'',
      Call_setattr ''size'' (PyStr ''20GB''),
      Call_printRequestRSpec profile_doc]"

definition profile_world :: "lib \<Rightarrow> world \<Rightarrow> world" where
  "profile_world L w =
     w\<lparr>heap := heap w @ profile_objects (length (heap w)),
       stdout := stdout w @ [render L profile_doc],
       trace := trace w @ profile_calls\<rparr>"

text \<open>Concrete inputs: a library that accepts every call, one that rejects the disk
  image, and the world of a fresh process.\<close>

definition accept_all :: lib where
  "accept_all = \<lparr>rejects = (\<lambda>c. False), render = (\<lambda>d. ''<rspec/>'')\<rparr>"

definition reject_image :: lib where
  "reject_image =
     \<lparr>rejects = (\<lambda>c. case c of Call_setattr name v \<Rightarrow> name = ''disk_image'' | _ \<Rightarrow> False),
      render = (\<lambda>d. ''<rspec/>'')\<rparr>"

definition empty_world :: world where
  "empty_world = \<lparr>heap = [], stdout = [], trace = []\<rparr>"

section \<open>Properties\<close>

lemmas op_defs =
  portal_Context_def makeRequestRSpec_def IG_Tour_def Description_def addTour_def RawPC_def
  setattr_def Blockstore_def printRequestRSpec_def snapshot_def snapshot_tour_def
  snapshot_node_def snapshot_bs_def bindE_def enter_def alloc_def lookup_def new_obj_def

lemma profile_run:
  "profile L w =
     (case find (rejects L) profile_calls of
        Some c \<Rightarrow> Inl (LibraryFault c)
      | None \<Rightarrow> Inr (profile_vars (length (heap w)), profile_world L w))"
  apply (cases w)
  apply (simp add: profile_def profile_calls_def profile_objects_def profile_doc_def
      profile_vars_def profile_world_def node_attrs_def op_defs
      nth_append Let_def list_update_append eval_nat_numeral)
  done

lemma find_None_iff_accepts: "find P xs = None \<longleftrightarrow> (\<forall>x \<in> set xs. \<not> P x)"
  by (induction xs) auto

lemma profile_Inr_iff:
  "profile L w = Inr (g, w') \<longleftrightarrow>
     (\<forall>c \<in> set profile_calls. \<not> rejects L c) \<and>
     g = profile_vars (length (heap w)) \<and> w' = profile_world L w"
proof (cases "find (rejects L) profile_calls")
  case None
  then have run: "profile L w = Inr (profile_vars (length (heap w)), profile_world L w)"
    by (simp add: profile_run)
  from None have "\<forall>x \<in> set profile_calls. \<not> rejects L x"
    by (simp add: find_None_iff_accepts)
  with run show ?thesis
    by auto
next
  case (Some c)
  then have "\<not> (\<forall>x \<in> set profile_calls. \<not> rejects L x)"
    using find_None_iff_accepts [of "rejects L" profile_calls] by simp
  with Some show ?thesis
    by (simp add: profile_run)
qed

lemmas obs_defs = getattr_def nodes_of_def tour_of_def description_of_def node_name_def
  blockstores_of_def bs_name_def bs_mount_def

lemmas run_defs = profile_vars_def profile_objects_def node_attrs_def profile_world_def
  profile_calls_def profile_doc_def

lemma accepted_run:
  "profile accept_all empty_world = Inr (profile_vars 0, profile_world accept_all empty_world)"
  by code_simp

lemma run_output_eq:
  "run_output L w =
     (case find (rejects L) profile_calls of
        Some c \<Rightarrow> Inl (LibraryFault c)
      | None \<Rightarrow> Inr [render L profile_doc])"
  by (simp add: run_output_def profile_run profile_world_def split: option.splits)

lemma find_first_rejected:
  assumes "c \<in> set cs" and "P c"
  shows "\<exists>c'. find P cs = Some c' \<and> c' \<in> set cs \<and> P c'"
  using assms by (induction cs) auto

subsection \<open>Heaps without dangling addresses\<close>

lemma closed_refs:
  assumes "closed h" and "a < length h" and "x \<in> set (refs (body (h ! a)))"
  shows "x < length h"
  using assms by (auto simp: closed_def list_all_iff)

lemma closed_empty: "closed (heap empty_world)"
  by (simp add: closed_def empty_world_def)

lemma holders_old:
  assumes "closed h" and "length h \<le> b"
  shows "filter (\<lambda>a. b \<in> set (refs (body ((h @ xs) ! a)))) [0..<length h] = []"
proof -
  have "\<not> b \<in> set (refs (body ((h @ xs) ! a)))" if "a < length h" for a
    using closed_refs [OF assms(1) that, of b] assms(2) that by (auto simp: nth_append)
  then show ?thesis
    by (simp add: filter_empty_conv)
qed

lemma upt_fresh5:
  "[0..<n + 5] = [0..<n] @ [n, n + 1, n + 2, n + 3, n + 4]"
proof -
  have "[0..<n + 5] = [0..<n] @ [n..<n + 5]"
    by (rule upt_add_eq_append) simp
  also have "[n..<n + 5] = [n, n + 1, n + 2, n + 3, n + 4]"
    by (simp add: eval_nat_numeral)
  finally show ?thesis .
qed

lemma profile_world_holders:
  assumes "closed (heap w)"
  shows "holders (heap (profile_world L w)) (length (heap w) + 4) = [length (heap w) + 3]"
proof -
  let ?n = "length (heap w)"
  let ?h = "heap (profile_world L w)"
  have len: "length ?h = ?n + 5"
    by (simp add: profile_world_def profile_objects_def)
  have old: "filter (\<lambda>a. ?n + 4 \<in> set (refs (body (?h ! a)))) [0..<?n] = []"
    using holders_old [OF assms, of "?n + 4" "profile_objects ?n"]
    by (simp add: profile_world_def)
  have new: "filter (\<lambda>a. ?n + 4 \<in> set (refs (body (?h ! a)))) [?n, ?n + 1, ?n + 2, ?n + 3, ?n + 4]
      = [?n + 3]"
    by (simp add: profile_world_def profile_objects_def nth_append)
  show ?thesis
    by (simp only: holders_def len upt_fresh5 filter_append old new append_Nil)
qed

subsection \<open>The node\<close>

text \<open>
  C1: a run of the script that completes leaves exactly one node in the request, the one
  bound to \<^verbatim>\<open>node\<close>; its symbolic name is \<^verbatim>\<open>deploy-node\<close>, its hardware type \<^verbatim>\<open>d430\<close>,
  its disk image the UBUNTU22-64-STD URN; and \<^verbatim>\<open>RawPC\<close> is called once in the whole run.
\<close>

theorem profile_one_node:
  assumes "profile L w = Inr (g, w')"
  shows "nodes_of (heap w') (var_request g) = Some [var_node g]
       \<and> node_name (heap w') (var_node g) = Some ''deploy-node''
       \<and> getattr (heap w') (var_node g) ''hardware_type'' = Some (PyStr ''d430'')
       \<and> getattr (heap w') (var_node g) ''disk_image'' =
           Some (PyStr ''urn:publicid:IDN+emulab.net+image+emulab-ops:UBUNTU22-64-STD'')
       \<and> filter is_RawPC (drop (length (trace w)) (trace w')) = [Call_RawPC ''deploy-node'']"
proof -
  from assms have g: "g = profile_vars (length (heap w))" and w': "w' = profile_world L w"
    by (simp_all add: profile_Inr_iff)
  show ?thesis
    unfolding g w'
    by (simp add: obs_defs run_defs lookup_def nth_append)
qed

theorem profile_one_node_witness:
  "profile accept_all empty_world = Inr (profile_vars 0, profile_world accept_all empty_world)
   \<and> nodes_of (heap (profile_world accept_all empty_world)) 1 = Some [3]
   \<and> node_name (heap (profile_world accept_all empty_world)) 3 = Some ''deploy-node''
   \<and> getattr (heap (profile_world accept_all empty_world)) 3 ''hardware_type'' =
       Some (PyStr ''d430'')
   \<and> getattr (heap (profile_world accept_all empty_world)) 3 ''disk_image'' =
       Some (PyStr ''urn:publicid:IDN+emulab.net+image+emulab-ops:UBUNTU22-64-STD'')
   \<and> filter is_RawPC (trace (profile_world accept_all empty_world)) = [Call_RawPC ''deploy-node'']"
  using accepted_run profile_one_node [OF accepted_run]
  by (simp add: profile_vars_def empty_world_def)

text \<open>
  C2: after a run that completes, the single node of the request has its attribute
  \<^verbatim>\<open>routable_control_ip\<close> set to \<^verbatim>\<open>True\<close>.
\<close>

theorem profile_routable_control_ip:
  assumes "profile L w = Inr (g, w')"
  shows "nodes_of (heap w') (var_request g) = Some [var_node g]
       \<and> getattr (heap w') (var_node g) ''routable_control_ip'' = Some (PyBool True)"
proof -
  from assms have g: "g = profile_vars (length (heap w))" and w': "w' = profile_world L w"
    by (simp_all add: profile_Inr_iff)
  show ?thesis
    unfolding g w'
    by (simp add: obs_defs run_defs lookup_def nth_append)
qed

theorem profile_routable_control_ip_witness:
  "profile accept_all empty_world = Inr (profile_vars 0, profile_world accept_all empty_world)
   \<and> nodes_of (heap (profile_world accept_all empty_world)) 1 = Some [3]
   \<and> getattr (heap (profile_world accept_all empty_world)) 3 ''routable_control_ip'' =
       Some (PyBool True)"
  using accepted_run profile_routable_control_ip [OF accepted_run]
  by (simp add: profile_vars_def)

subsection \<open>The blockstore\<close>

text \<open>
  C3: after a run that completes, the single node of the request has exactly one
  blockstore, the one bound to \<^verbatim>\<open>bs\<close>, with symbolic name \<^verbatim>\<open>bs\<close>, mount path
  \<^verbatim>\<open>/mydata\<close> and size \<^verbatim>\<open>20GB\<close>. Started from a heap without dangling addresses, the
  node bound to \<^verbatim>\<open>node\<close> is the only object of the final heap that holds the blockstore:
  no other node does, and the request does not.
\<close>

theorem profile_one_blockstore:
  assumes "profile L w = Inr (g, w')" and "closed (heap w)"
  shows "nodes_of (heap w') (var_request g) = Some [var_node g]
       \<and> blockstores_of (heap w') (var_node g) = Some [var_bs g]
       \<and> bs_name (heap w') (var_bs g) = Some ''bs''
       \<and> bs_mount (heap w') (var_bs g) = Some ''/mydata''
       \<and> getattr (heap w') (var_bs g) ''size'' = Some (PyStr ''20GB'')
       \<and> holders (heap w') (var_bs g) = [var_node g]"
proof -
  from assms have g: "g = profile_vars (length (heap w))" and w': "w' = profile_world L w"
    by (simp_all add: profile_Inr_iff)
  have "nodes_of (heap w') (var_request g) = Some [var_node g]
       \<and> blockstores_of (heap w') (var_node g) = Some [var_bs g]
       \<and> bs_name (heap w') (var_bs g) = Some ''bs''
       \<and> bs_mount (heap w') (var_bs g) = Some ''/mydata''
       \<and> getattr (heap w') (var_bs g) ''size'' = Some (PyStr ''20GB'')"
    unfolding g w'
    by (simp add: obs_defs run_defs lookup_def nth_append)
  moreover have "holders (heap w') (var_bs g) = [var_node g]"
    using profile_world_holders [OF assms(2), of L]
    unfolding g w' by (simp add: profile_vars_def)
  ultimately show ?thesis by simp
qed

theorem profile_one_blockstore_witness:
  "profile accept_all empty_world = Inr (profile_vars 0, profile_world accept_all empty_world)
   \<and> closed (heap empty_world)
   \<and> nodes_of (heap (profile_world accept_all empty_world)) 1 = Some [3]
   \<and> blockstores_of (heap (profile_world accept_all empty_world)) 3 = Some [4]
   \<and> bs_name (heap (profile_world accept_all empty_world)) 4 = Some ''bs''
   \<and> bs_mount (heap (profile_world accept_all empty_world)) 4 = Some ''/mydata''
   \<and> getattr (heap (profile_world accept_all empty_world)) 4 ''size'' = Some (PyStr ''20GB'')
   \<and> holders (heap (profile_world accept_all empty_world)) 4 = [3]"
  using accepted_run closed_empty profile_one_blockstore [OF accepted_run closed_empty]
  by (simp add: profile_vars_def)

subsection \<open>The tour\<close>

text \<open>
  C4: after a run that completes, the tour attached to the request is the one bound to
  \<^verbatim>\<open>tour\<close>, and its description is the text of \<^verbatim>\<open>tourDescription\<close>, character for
  character, with the type \<^verbatim>\<open>IG.Tour.TEXT\<close>.
\<close>

theorem profile_tour_description:
  assumes "profile L w = Inr (g, w')"
  shows "tour_of (heap w') (var_request g) = Some (var_tour g)
       \<and> description_of (heap w') (var_tour g) = Some (TEXT, tourDescription)"
proof -
  from assms have g: "g = profile_vars (length (heap w))" and w': "w' = profile_world L w"
    by (simp_all add: profile_Inr_iff)
  show ?thesis
    unfolding g w'
    by (simp add: obs_defs run_defs lookup_def nth_append)
qed

theorem profile_tour_description_witness:
  "profile accept_all empty_world = Inr (profile_vars 0, profile_world accept_all empty_world)
   \<and> tour_of (heap (profile_world accept_all empty_world)) 1 = Some 2
   \<and> description_of (heap (profile_world accept_all empty_world)) 2 =
       Some (TEXT, tourDescription)"
  using accepted_run profile_tour_description [OF accepted_run]
  by (simp add: profile_vars_def numeral_2_eq_2)

text \<open>
  C10: the text of \<^verbatim>\<open>tourDescription\<close> is the sentence
  \<^verbatim>\<open>Example profile for the hello-world-cluster\<close> between two line feeds: it starts and
  ends with a line feed, and is not the bare sentence.
\<close>

theorem tourDescription_newlines:
  "tourDescription = [CHR 0x0A] @ ''Example profile for the hello-world-cluster'' @ [CHR 0x0A]
   \<and> hd tourDescription = CHR 0x0A
   \<and> last tourDescription = CHR 0x0A
   \<and> tourDescription \<noteq> ''Example profile for the hello-world-cluster''"
  by (simp add: tourDescription_def)

subsection \<open>Output, faults and termination\<close>

text \<open>
  C5: the output of the script is deterministic. With the same library, two runs write
  the same documents to standard output (or end in the same fault), whatever the worlds
  they start from: the request handed to the serializer depends on no input.
\<close>

theorem profile_output_deterministic:
  "run_output L w1 = run_output L w2"
  by (simp add: run_output_eq)

text \<open>
  C7: the script handles no fault. When the library rejects one of the calls of the
  script, the run ends in the fault of the first rejected call, the process exits with a
  nonzero status, and nothing is written to standard output.
\<close>

theorem profile_fault_propagates:
  assumes "c \<in> set profile_calls" and "rejects L c"
  shows "\<exists>c'. find (rejects L) profile_calls = Some c'
             \<and> profile L w = Inl (LibraryFault c')
             \<and> exit_status (profile L w) = 1
             \<and> run_output L w = Inl (LibraryFault c')"
proof -
  from assms obtain c' where "find (rejects L) profile_calls = Some c'"
    using find_first_rejected [of c profile_calls "rejects L"] by blast
  then show ?thesis
    by (simp add: profile_run run_output_eq exit_status_def)
qed

theorem profile_fault_propagates_witness:
  "Call_setattr ''disk_image''
      (PyStr ''urn:publicid:IDN+emulab.net+image+emulab-ops:UBUNTU22-64-STD'') \<in> set profile_calls
   \<and> rejects reject_image (Call_setattr ''disk_image''
        (PyStr ''urn:publicid:IDN+emulab.net+image+emulab-ops:UBUNTU22-64-STD''))
   \<and> profile reject_image empty_world =
       Inl (LibraryFault (Call_setattr ''disk_image''
         (PyStr ''urn:publicid:IDN+emulab.net+image+emulab-ops:UBUNTU22-64-STD'')))
   \<and> exit_status (profile reject_image empty_world) = 1"
  using profile_fault_propagates [of "Call_setattr ''disk_image''
      (PyStr ''urn:publicid:IDN+emulab.net+image+emulab-ops:UBUNTU22-64-STD'')" reject_image empty_world]
  by (simp add: profile_calls_def reject_image_def exit_status_def)

text \<open>
  C8: when the library rejects none of the calls of the script, the run completes, with
  the five objects of the script on the heap, and the process exits with status 0.
\<close>

theorem profile_exits_successfully:
  assumes "\<forall>c \<in> set profile_calls. \<not> rejects L c"
  shows "profile L w = Inr (profile_vars (length (heap w)), profile_world L w)
       \<and> exit_status (profile L w) = 0"
proof -
  from assms have "profile L w = Inr (profile_vars (length (heap w)), profile_world L w)"
    by (simp add: profile_Inr_iff)
  then show ?thesis
    by (simp add: exit_status_def)
qed

theorem profile_exits_successfully_witness:
  "\<not> list_ex (rejects accept_all) profile_calls
   \<and> profile accept_all empty_world = Inr (profile_vars 0, profile_world accept_all empty_world)
   \<and> exit_status (profile accept_all empty_world) = 0"
proof -
  have accepts: "\<forall>c \<in> set profile_calls. \<not> rejects accept_all c"
    by (simp add: accept_all_def)
  then have "\<not> list_ex (rejects accept_all) profile_calls"
    by (simp add: list_ex_iff)
  with profile_exits_successfully [OF accepts, of empty_world] show ?thesis
    by (simp add: empty_world_def exit_status_def)
qed

text \<open>
  C9: a run that completes performs the calls of the script once each, in the order of the
  source, whatever the library and the starting world. The last call is
  \<^verbatim>\<open>printRequestRSpec\<close>; the request it was handed is the request as it is in the final
  heap, so nothing reachable from the request changed after it; and the run wrote that
  one document.
\<close>

theorem profile_print_is_last:
  assumes "profile L w = Inr (g, w')"
  shows "trace w' = trace w @ profile_calls
       \<and> last (trace w') = Call_printRequestRSpec profile_doc
       \<and> snapshot (heap w') (var_request g) = Some profile_doc
       \<and> stdout w' = stdout w @ [render L profile_doc]"
proof -
  from assms have g: "g = profile_vars (length (heap w))" and w': "w' = profile_world L w"
    by (simp_all add: profile_Inr_iff)
  show ?thesis
    unfolding g w'
    by (simp add: run_defs snapshot_def snapshot_tour_def snapshot_node_def snapshot_bs_def
        lookup_def nth_append)
qed

theorem profile_print_is_last_witness:
  "profile accept_all empty_world = Inr (profile_vars 0, profile_world accept_all empty_world)
   \<and> trace (profile_world accept_all empty_world) = profile_calls
   \<and> last (trace (profile_world accept_all empty_world)) = Call_printRequestRSpec profile_doc
   \<and> snapshot (heap (profile_world accept_all empty_world)) 1 = Some profile_doc
   \<and> stdout (profile_world accept_all empty_world) = [''<rspec/>'']"
  using accepted_run profile_print_is_last [OF accepted_run]
  by (simp add: profile_vars_def empty_world_def accept_all_def profile_calls_def)

end
